theory Spec2Isabelle
  imports Complex_Main
begin

section \<open>Data model of the content analyzer\<close>

text \<open>
  The embedding follows \<^verbatim>\<open>backend/models/content_analyzer.py\<close> and the enums of
  \<^verbatim>\<open>backend/models/schemas.py\<close>. Python's leading underscore of the private methods is
  dropped (\<^verbatim>\<open>_combine_analysis_scores\<close> is \<open>combine_analysis_scores\<close>), since an Isabelle
  name cannot start with one. Python floats are modelled as \<^typ>\<open>real\<close>: the engine only
  compares scores with constants, takes maxima and minima and adds or multiplies by a
  constant once, so rounding is idealised away. Scores are numbers: the float value NaN
  is outside the model.
\<close>

datatype ToxicityCategory =
  HATE_SPEECH | CYBERBULLYING | HARASSMENT | THREAT | SPAM | MISINFORMATION | INAPPROPRIATE | SAFE

datatype SeverityLevel = LOW | MEDIUM | HIGH | CRITICAL

text \<open>
  The three analyses are Python dictionaries. \<open>get_or d k dflt\<close> is \<^verbatim>\<open>d.get(k, dflt)\<close>;
  \<open>flag d k\<close> is the truth value of \<^verbatim>\<open>d.get(k)\<close> on a dictionary of booleans, where the
  missing key gives \<^verbatim>\<open>None\<close>, which is falsy.
\<close>

definition get_or :: "('k \<rightharpoonup> 'v) \<Rightarrow> 'k \<Rightarrow> 'v \<Rightarrow> 'v" where
  "get_or d k dflt = (case d k of None \<Rightarrow> dflt | Some v \<Rightarrow> v)"

definition flag :: "('k \<rightharpoonup> bool) \<Rightarrow> 'k \<Rightarrow> bool" where
  "flag d k = (case d k of None \<Rightarrow> False | Some v \<Rightarrow> v)"

section \<open>Signal fusion, category and severity\<close>

text \<open>
  \<^verbatim>\<open>_combine_analysis_scores\<close>: every rebinding of \<^verbatim>\<open>base_score\<close> is one \<open>let\<close>, in
  the order of the source. The source caps the result from above only
  (\<^verbatim>\<open>min(base_score, 1.0)\<close>); there is no lower bound.
\<close>

definition combine_analysis_scores ::
  "(string \<rightharpoonup> real) \<Rightarrow> (string \<rightharpoonup> real) \<Rightarrow> (string \<rightharpoonup> bool) \<Rightarrow> real" where
  "combine_analysis_scores toxicity_analysis sentiment_analysis pattern_analysis =
     (let base_score = get_or toxicity_analysis ''toxicity'' 0.0;
          base_score = (if get_or toxicity_analysis ''severe_toxicity'' 0.0 > 0.5
                        then max base_score 0.8 else base_score);
          base_score = (if get_or toxicity_analysis ''threat'' 0.0 > 0.3
                        then max base_score 0.9 else base_score);
          sentiment_score = get_or sentiment_analysis ''compound'' 0.0;
          base_score = (if sentiment_score < - 0.5
                        then max base_score (\<bar>sentiment_score\<bar> * 0.6) else base_score);
          base_score = (if flag pattern_analysis ''has_threats''
                        then max base_score 0.85 else base_score);
          base_score = (if flag pattern_analysis ''has_hate_speech''
                        then max base_score 0.75 else base_score);
          base_score = (if flag pattern_analysis ''excessive_caps''
                           \<and> flag pattern_analysis ''has_profanity''
                        then min (base_score + 0.2) 1.0 else base_score)
      in min base_score 1.0)"

text \<open>\<^verbatim>\<open>_determine_category\<close>: the chain of early returns, first match wins.\<close>

definition determine_category ::
  "(string \<rightharpoonup> real) \<Rightarrow> (string \<rightharpoonup> bool) \<Rightarrow> real \<Rightarrow> ToxicityCategory" where
  "determine_category toxicity_analysis pattern_analysis combined_score =
     (if combined_score < 0.3 then SAFE
      else if flag pattern_analysis ''has_threats''
              \<or> get_or toxicity_analysis ''threat'' 0.0 > 0.4 then THREAT
      else if flag pattern_analysis ''has_hate_speech'' \<or> combined_score > 0.7 then HATE_SPEECH
      else if get_or toxicity_analysis ''insult'' 0.0 > 0.5 \<and> combined_score > 0.6
           then CYBERBULLYING
      else if combined_score > 0.5 then HARASSMENT
      else INAPPROPRIATE)"

text \<open>\<^verbatim>\<open>_determine_severity\<close>, with its two final branches that both return \<open>LOW\<close>.\<close>

definition determine_severity :: "real \<Rightarrow> ToxicityCategory \<Rightarrow> SeverityLevel" where
  "determine_severity combined_score category =
     (if category = THREAT then CRITICAL
      else if combined_score \<ge> 0.8 then HIGH
      else if combined_score \<ge> 0.6 then MEDIUM
      else if combined_score \<ge> 0.3 then LOW
      else LOW)"

section \<open>Text preprocessing\<close>

text \<open>
  Text is a list of characters. The model covers ASCII text: \<open>is_space\<close> is the ASCII part
  of what Python's \<^verbatim>\<open>\s\<close> and \<^verbatim>\<open>str.strip\<close> take for whitespace, \<open>is_word\<close> the ASCII
  part of \<^verbatim>\<open>\w\<close>, and \<open>lower\<close> is \<^verbatim>\<open>str.lower\<close> on ASCII letters.
\<close>

definition is_space :: "char \<Rightarrow> bool" where
  "is_space c = (let n = (of_char c :: nat) in (9 \<le> n \<and> n \<le> 13) \<or> (28 \<le> n \<and> n \<le> 32))"

definition is_upper :: "char \<Rightarrow> bool" where
  "is_upper c = (let n = (of_char c :: nat) in 65 \<le> n \<and> n \<le> 90)"

definition is_lower :: "char \<Rightarrow> bool" where
  "is_lower c = (let n = (of_char c :: nat) in 97 \<le> n \<and> n \<le> 122)"

definition is_digit :: "char \<Rightarrow> bool" where
  "is_digit c = (let n = (of_char c :: nat) in 48 \<le> n \<and> n \<le> 57)"

definition is_word :: "char \<Rightarrow> bool" where
  "is_word c = (is_upper c \<or> is_lower c \<or> is_digit c \<or> c = CHR ''_'')"

definition lower_char :: "char \<Rightarrow> char" where
  "lower_char c = (if is_upper c then char_of (of_char c + (32::nat)) else c)"

definition lower :: "string \<Rightarrow> string" where
  "lower s = map lower_char s"

definition strip :: "string \<Rightarrow> string" where
  "strip s = rev (dropWhile is_space (rev (dropWhile is_space s)))"

text \<open>\<^verbatim>\<open>re.sub(r'\s+', ' ', t)\<close>: every maximal run of whitespace becomes one blank.\<close>

function collapse_whitespace :: "string \<Rightarrow> string" where
  "collapse_whitespace [] = []"
| "collapse_whitespace (c # cs) =
     (if is_space c then CHR '' '' # collapse_whitespace (dropWhile is_space cs)
      else c # collapse_whitespace cs)"
  by pat_completeness auto
termination
  by (relation "measure length") (auto simp: le_imp_less_Suc length_dropWhile_le)

text \<open>
  \<^verbatim>\<open>re.sub(r'(.)\1{3,}', r'\1\1', t)\<close>: scanning from the left, a character other than the
  newline that is followed by at least three copies of itself is matched together with
  all the copies that follow (the quantifier is greedy) and replaced by two copies.
\<close>

function reduce_repeated :: "string \<Rightarrow> string" where
  "reduce_repeated [] = []"
| "reduce_repeated (c # cs) =
     (if c \<noteq> CHR 0x0A \<and> 3 \<le> length (takeWhile (\<lambda>x. x = c) cs)
      then c # c # reduce_repeated (dropWhile (\<lambda>x. x = c) cs)
      else c # reduce_repeated cs)"
  by pat_completeness auto
termination
  by (relation "measure length") (auto simp: le_imp_less_Suc length_dropWhile_le)

text \<open>\<^verbatim>\<open>_preprocess_text\<close>.\<close>

definition preprocess_text :: "string \<Rightarrow> string" where
  "preprocess_text text =
     (let text = collapse_whitespace (strip text);
          text = reduce_repeated text
      in text)"

section \<open>Regular expressions of the pattern sets\<close>

text \<open>
  The fragment of Python's \<^verbatim>\<open>re\<close> syntax that the nine patterns use: literal text,
  a character class, a class under \<^verbatim>\<open>*\<close> or \<^verbatim>\<open>+\<close>, the word boundary \<^verbatim>\<open>\b\<close>,
  alternation and concatenation. All patterns are compiled with \<^verbatim>\<open>re.IGNORECASE\<close>, so
  characters are compared after lower-casing.
\<close>

datatype regex =
    Chars string
  | Class "char \<Rightarrow> bool"
  | Star_class "char \<Rightarrow> bool"
  | Plus_class "char \<Rightarrow> bool"
  | Word_boundary
  | Alt regex regex
  | Seq regex regex

text \<open>
  A cursor is a position in the searched text: the character before it, if there is one,
  and the text after it. \<open>ends r cur\<close> lists the cursors at which a match of \<open>r\<close> that
  starts at \<open>cur\<close> can end; \<^verbatim>\<open>pattern.search(text)\<close> is truthy when a match starts
  somewhere.
\<close>

type_synonym cursor = "char option \<times> string"

fun chars_at :: "string \<Rightarrow> cursor \<Rightarrow> cursor list" where
  "chars_at [] cur = [cur]"
| "chars_at (c # cs) (p, []) = []"
| "chars_at (c # cs) (p, x # xs) =
     (if lower_char x = lower_char c then chars_at cs (Some x, xs) else [])"

fun star_at :: "(char \<Rightarrow> bool) \<Rightarrow> cursor \<Rightarrow> cursor list" where
  "star_at f (p, []) = [(p, [])]"
| "star_at f (p, x # xs) =
     (p, x # xs) # (if f (lower_char x) then star_at f (Some x, xs) else [])"

definition at_boundary :: "cursor \<Rightarrow> bool" where
  "at_boundary cur =
     ((case fst cur of None \<Rightarrow> False | Some c \<Rightarrow> is_word c)
        \<noteq> (case snd cur of [] \<Rightarrow> False | x # xs \<Rightarrow> is_word x))"

fun ends :: "regex \<Rightarrow> cursor \<Rightarrow> cursor list" where
  "ends (Chars s) cur = chars_at s cur"
| "ends (Class f) (p, []) = []"
| "ends (Class f) (p, x # xs) = (if f (lower_char x) then [(Some x, xs)] else [])"
| "ends (Star_class f) cur = star_at f cur"
| "ends (Plus_class f) (p, []) = []"
| "ends (Plus_class f) (p, x # xs) = (if f (lower_char x) then star_at f (Some x, xs) else [])"
| "ends Word_boundary cur = (if at_boundary cur then [cur] else [])"
| "ends (Alt r s) cur = ends r cur @ ends s cur"
| "ends (Seq r s) cur = concat (map (ends s) (ends r cur))"

fun search_from :: "regex \<Rightarrow> cursor \<Rightarrow> bool" where
  "search_from r (p, []) = (ends r (p, []) \<noteq> [])"
| "search_from r (p, x # xs) = (ends r (p, x # xs) \<noteq> [] \<or> search_from r (Some x, xs))"

definition search :: "regex \<Rightarrow> string \<Rightarrow> bool" where
  "search r text = search_from r (None, text)"

fun alts :: "string list \<Rightarrow> regex" where
  "alts [] = Class (\<lambda>c. False)"
| "alts [s] = Chars s"
| "alts (s # ss) = Alt (Chars s) (alts ss)"

fun seqs :: "regex list \<Rightarrow> regex" where
  "seqs [] = Chars []"
| "seqs [r] = r"
| "seqs (r # rs) = Seq r (seqs rs)"

text \<open>\<^verbatim>\<open>_compile_hate_speech_patterns\<close>.\<close>

definition hate_speech_patterns :: "regex list" where
  "hate_speech_patterns =
     [seqs [Word_boundary, alts [''hate'', ''despise'', ''loathe''], Plus_class is_space,
            alts [''you'', ''them'', ''those''], Word_boundary],
      seqs [Word_boundary, alts [''kill'', ''die'', ''death''], Plus_class is_space,
            alts [''yourself'', ''yourselves''], Word_boundary],
      seqs [Word_boundary, alts [''stupid'', ''idiot'', ''moron''], Plus_class is_space,
            alts [''people'', ''person''], Word_boundary]]"

text \<open>\<^verbatim>\<open>_compile_threat_patterns\<close>.\<close>

definition threat_patterns :: "regex list" where
  "threat_patterns =
     [seqs [Word_boundary,
            Alt (seqs [Chars ''going'', Plus_class is_space, Chars ''to''])
              (alts [''gonna'', ''will'']),
            Plus_class is_space,
            alts [''kill'', ''hurt'', ''harm'', ''beat'', ''destroy''], Word_boundary],
      seqs [Word_boundary,
            Alt (seqs [Chars ''watch'', Plus_class is_space, Chars ''out''])
              (Alt (seqs [Chars ''be'', Plus_class is_space, Chars ''careful''])
                 (seqs [Chars ''you'', Plus_class is_space, Chars ''better''])),
            Word_boundary],
      seqs [Word_boundary, Chars ''or'', Plus_class is_space, Chars ''else'', Word_boundary]]"

text \<open>\<^verbatim>\<open>_compile_profanity_patterns\<close>.\<close>

definition profanity_patterns :: "regex list" where
  "profanity_patterns =
     [seqs [Word_boundary, Star_class is_lower, Chars ''sh'', Class (\<lambda>c. c \<in> set ''i1''),
            Chars ''t'', Star_class is_lower, Word_boundary],
      seqs [Word_boundary, Star_class is_lower, Chars ''d'', Class (\<lambda>c. c \<in> set ''a4''),
            Chars ''mn'', Star_class is_lower, Word_boundary],
      seqs [Word_boundary, Star_class is_lower, Chars ''cr'', Class (\<lambda>c. c \<in> set ''a4''),
            Chars ''p'', Star_class is_lower, Word_boundary]]"

section \<open>Pattern analysis and the rule-based scores\<close>

text \<open>
  \<^verbatim>\<open>re.findall\<close> for a pattern \<^verbatim>\<open>[class]{n,}\<close> with \<open>n \<ge> 1\<close>: the maximal runs of class
  characters that have at least \<open>n\<close> members, from left to right.
\<close>

function findall_run :: "(char \<Rightarrow> bool) \<Rightarrow> nat \<Rightarrow> string \<Rightarrow> string list" where
  "findall_run f n [] = []"
| "findall_run f n (c # cs) =
     (if f c \<and> n \<le> Suc (length (takeWhile f cs))
      then (c # takeWhile f cs) # findall_run f n (dropWhile f cs)
      else findall_run f n cs)"
  by pat_completeness auto
termination
  by (relation "measure (\<lambda>(f, n, s). length s)") (auto simp: le_imp_less_Suc length_dropWhile_le)

text \<open>
  \<^verbatim>\<open>_analyze_patterns\<close> returns a dictionary literal, kept as an association list in the
  order of the source; the functions that only call \<^verbatim>\<open>.get\<close> on it receive \<open>map_of\<close> of it.
\<close>

definition analyze_patterns :: "string \<Rightarrow> (string \<times> bool) list" where
  "analyze_patterns text =
     (let text_lower = lower text in
      [(''has_hate_speech'', list_ex (\<lambda>pattern. search pattern text_lower) hate_speech_patterns),
       (''has_threats'', list_ex (\<lambda>pattern. search pattern text_lower) threat_patterns),
       (''has_profanity'', list_ex (\<lambda>pattern. search pattern text_lower) profanity_patterns),
       (''excessive_caps'', length (findall_run is_upper 4 text) > 2),
       (''excessive_punctuation'', length (findall_run (\<lambda>c. c \<in> set ''!?'') 3 text) > 0)])"

text \<open>
  \<^verbatim>\<open>_rule_based_toxicity_analysis\<close>. Each count is the number of patterns of a set that
  match somewhere. The subscript \<^verbatim>\<open>scores['severe_toxicity']\<close> reads a key that the
  dictionary literal has set, so it cannot raise.
\<close>

definition rule_based_toxicity_analysis :: "string \<Rightarrow> (string \<rightharpoonup> real)" where
  "rule_based_toxicity_analysis text =
     (let text_lower = lower text;
          scores = [''toxicity'' \<mapsto> 0.0, ''severe_toxicity'' \<mapsto> 0.0, ''obscene'' \<mapsto> 0.0,
                    ''threat'' \<mapsto> 0.0, ''insult'' \<mapsto> 0.0];
          hate_matches = length (filter (\<lambda>pattern. search pattern text_lower) hate_speech_patterns);
          scores = (if hate_matches > 0
                    then scores(''toxicity'' \<mapsto> min (0.3 + (real hate_matches * 0.2)) 1.0)
                    else scores);
          threat_matches = length (filter (\<lambda>pattern. search pattern text_lower) threat_patterns);
          scores = (if threat_matches > 0
                    then (let scores = scores(''threat'' \<mapsto> min (0.4 + (real threat_matches * 0.3)) 1.0)
                          in scores(''severe_toxicity'' \<mapsto>
                               max (get_or scores ''severe_toxicity'' 0.0) 0.7))
                    else scores);
          profanity_matches =
            length (filter (\<lambda>pattern. search pattern text_lower) profanity_patterns);
          scores = (if profanity_matches > 0
                    then (let scores = scores(''obscene'' \<mapsto> min (0.2 + (real profanity_matches * 0.2)) 1.0)
                          in scores(''insult'' \<mapsto> min (0.3 + (real profanity_matches * 0.1)) 1.0))
                    else scores)
      in scores)"

section \<open>The learned classifier and the sentiment analyzer\<close>

text \<open>
  The two models are external. A call of the classifier either raises or returns the list of
  lists of label and score that the pipeline produces; a result whose entries lack a label
  or a score makes the loop raise and counts as \<open>Raises\<close>, since the \<^verbatim>\<open>except\<close> clause
  discards the partial dictionary. The analyzer is modelled after \<^verbatim>\<open>initialize\<close> has run:
  \<open>toxicity_classifier\<close> is \<open>None\<close> when the model could not be loaded.
\<close>

datatype classifier_result = Raises | Results "(string \<times> real) list list"

record ContentAnalyzer =
  toxicity_classifier :: "(string \<Rightarrow> classifier_result) option"
  sentiment_analyzer :: "string \<Rightarrow> (string \<rightharpoonup> real)"

fun startswith :: "string \<Rightarrow> string \<Rightarrow> bool" where
  "startswith s [] = True"
| "startswith [] (p # ps) = False"
| "startswith (c # cs) (p # ps) = (c = p \<and> startswith cs ps)"

text \<open>\<open>contains s sub\<close> is Python's \<^verbatim>\<open>sub in s\<close> on strings.\<close>

fun contains :: "string \<Rightarrow> string \<Rightarrow> bool" where
  "contains [] sub = (sub = [])"
| "contains (c # cs) sub = (startswith (c # cs) sub \<or> contains cs sub)"

text \<open>The body of the loop over \<^verbatim>\<open>results[0]\<close>.\<close>

definition assign_label :: "(string \<rightharpoonup> real) \<Rightarrow> string \<times> real \<Rightarrow> (string \<rightharpoonup> real)" where
  "assign_label scores result =
     (let label = lower (fst result);
          score = snd result
      in if contains label ''toxic'' \<or> contains label ''hate'' then scores(''toxicity'' \<mapsto> score)
         else if contains label ''severe'' then scores(''severe_toxicity'' \<mapsto> score)
         else if contains label ''obscene'' then scores(''obscene'' \<mapsto> score)
         else if contains label ''threat'' then scores(''threat'' \<mapsto> score)
         else if contains label ''insult'' then scores(''insult'' \<mapsto> score)
         else scores)"

text \<open>
  \<^verbatim>\<open>_analyze_toxicity\<close>: without a classifier, or when the call or \<^verbatim>\<open>results[0]\<close> raises,
  the rule-based analysis answers.
\<close>

definition analyze_toxicity :: "ContentAnalyzer \<Rightarrow> string \<Rightarrow> (string \<rightharpoonup> real)" where
  "analyze_toxicity self text =
     (case toxicity_classifier self of
        None \<Rightarrow> rule_based_toxicity_analysis text
      | Some classify \<Rightarrow>
          (case classify text of
             Raises \<Rightarrow> rule_based_toxicity_analysis text
           | Results results \<Rightarrow>
               (case results of
                  [] \<Rightarrow> rule_based_toxicity_analysis text
                | first # rest \<Rightarrow> foldl assign_label Map.empty first)))"

text \<open>\<^verbatim>\<open>_analyze_sentiment\<close>.\<close>

definition analyze_sentiment :: "ContentAnalyzer \<Rightarrow> string \<Rightarrow> (string \<rightharpoonup> real)" where
  "analyze_sentiment self text = sentiment_analyzer self text"

section \<open>Confidence, explanation, suggestions\<close>

text \<open>\<^verbatim>\<open>_calculate_confidence\<close>.\<close>

definition calculate_confidence :: "(string \<rightharpoonup> real) \<Rightarrow> (string \<times> bool) list \<Rightarrow> real" where
  "calculate_confidence toxicity_analysis pattern_analysis =
     (let confidence = 0.5;
          confidence = (if get_or toxicity_analysis ''toxicity'' 0.0 > 0.1
                        then confidence + 0.3 else confidence);
          pattern_matches = length (filter (\<lambda>v. v) (map snd pattern_analysis));
          confidence = confidence + min (real pattern_matches * 0.1) 0.2
      in min confidence 0.95)"

definition explanations :: "ToxicityCategory \<rightharpoonup> string" where
  "explanations =
     [HATE_SPEECH \<mapsto>
        ''This content contains language that may be hurtful or discriminatory ''
        @ ''towards individuals or groups based on their identity.'',
      CYBERBULLYING \<mapsto>
        ''This content contains language that could be perceived as bullying, ''
        @ ''intimidating, or meant to cause emotional harm to someone.'',
      HARASSMENT \<mapsto>
        ''This content contains language that may be considered harassing ''
        @ ''or repeatedly targeting someone in a negative way.'',
      THREAT \<mapsto>
        ''This content contains language that could be interpreted as a threat ''
        @ ''or expression of intent to cause harm.'',
      INAPPROPRIATE \<mapsto>
        ''This content contains language that may not be appropriate ''
        @ ''for all audiences or contexts.'']"

text \<open>\<^verbatim>\<open>_generate_explanation\<close>.\<close>

definition generate_explanation :: "ToxicityCategory \<Rightarrow> real \<Rightarrow> string \<Rightarrow> string" where
  "generate_explanation category score text =
     (if category = SAFE
      then ''This content appears to be safe and appropriate for most audiences.''
      else
        (let base_explanation =
               get_or explanations category
                 ''This content has been flagged for potential toxicity.''
         in if score < 0.5
            then base_explanation @ '' The content is borderline and context may be important.''
            else if score < 0.7
            then base_explanation @ '' The content shows moderate signs of toxicity.''
            else base_explanation @ '' The content shows strong indicators of toxicity.''))"

definition base_suggestions :: "ToxicityCategory \<rightharpoonup> string list" where
  "base_suggestions =
     [HATE_SPEECH \<mapsto>
        [''Consider using more inclusive language that doesn't target or demean groups of people'',
         ''Think about how your words might affect someone from the group you're discussing'',
         ''Try expressing your viewpoint without using language that could hurt others''],
      CYBERBULLYING \<mapsto>
        [''Consider how the recipient might feel reading this message'',
         ''Try expressing disagreement without personal attacks'',
         ''Think about whether this comment builds up or tears down the conversation''],
      HARASSMENT \<mapsto>
        [''Consider giving the person space rather than continuing to engage negatively'',
         ''Try focusing on the topic rather than the person'',
         ''Ask yourself if this comment is constructive or just venting''],
      THREAT \<mapsto>
        [''Express disagreement or frustration without mentioning harm'',
         ''Consider taking a break before responding when you're angry'',
         ''Remember that threats can have serious legal and personal consequences'']]"

text \<open>
  \<^verbatim>\<open>_generate_suggestions\<close>: the list is extended by the templates of the category (or by
  the three default ones), then the general remark is appended, then the slice
  \<^verbatim>\<open>suggestions[:3]\<close> is returned. The parameters \<^verbatim>\<open>text\<close> and \<^verbatim>\<open>user_preferences\<close> are
  not read.
\<close>

definition generate_suggestions ::
  "ToxicityCategory \<Rightarrow> string \<Rightarrow> (string \<rightharpoonup> string) option \<Rightarrow> string list" where
  "generate_suggestions category text user_preferences =
     (if category = SAFE
      then [''Great job! This content promotes positive communication.'']
      else
        (let suggestions = [];
             suggestions = suggestions @ get_or base_suggestions category
               [''Consider rephrasing your message in a more positive way'',
                ''Think about the impact your words might have on others'',
                ''Try expressing your thoughts with more empathy and understanding''];
             suggestions = suggestions @ [''Remember: kind words can make someone's day better!'']
         in take 3 suggestions))"

text \<open>\<^verbatim>\<open>_load_support_resources\<close>.\<close>

definition load_support_resources :: "(string \<times> string) list list" where
  "load_support_resources =
     [[(''name'', ''Crisis Text Line''),
       (''description'', ''Free 24/7 support via text message''),
       (''contact'', ''Text HOME to 741741''),
       (''url'', ''https://www.crisistextline.org/'')],
      [(''name'', ''National Suicide Prevention Lifeline''),
       (''description'', ''Free and confidential support 24/7''),
       (''contact'', ''988''),
       (''url'', ''https://suicidepreventionlifeline.org/'')],
      [(''name'', ''StopBullying.gov''),
       (''description'', ''Resources for dealing with cyberbullying''),
       (''contact'', ''Online resources''),
       (''url'', ''https://www.stopbullying.gov/'')]]"

section \<open>The analysis as a whole\<close>

text \<open>
  \<^verbatim>\<open>ContentAnalysisResponse\<close> of \<^verbatim>\<open>schemas.py\<close>. The field \<^verbatim>\<open>text\<close> is named \<open>text'\<close>,
  since \<open>text\<close> names the parameter of the functions. The pydantic model bounds three of its
  fields (\<^verbatim>\<open>ge\<close> and \<^verbatim>\<open>le\<close>); building a response outside the bounds raises a validation
  error, which is a result of the model.
\<close>

datatype error = KeyError | ValidationError

record ContentAnalysisResponse =
  text' :: string
  toxicity_score :: real
  is_toxic :: bool
  category :: ToxicityCategory
  severity :: SeverityLevel
  sentiment_score :: real
  confidence :: real
  explanation :: string
  suggestions :: "string list"
  support_resources :: "(string \<times> string) list list option"
  analysis_timestamp :: real
  processing_time_ms :: "real option"

definition validate :: "ContentAnalysisResponse \<Rightarrow> error + ContentAnalysisResponse" where
  "validate r =
     (if 0.0 \<le> toxicity_score r \<and> toxicity_score r \<le> 1.0
         \<and> - 1.0 \<le> sentiment_score r \<and> sentiment_score r \<le> 1.0
         \<and> 0.0 \<le> confidence r \<and> confidence r \<le> 1.0
      then Inr r else Inl ValidationError)"

text \<open>
  The analysis reads the clock three times: \<^verbatim>\<open>time.time()\<close> on entry, \<^verbatim>\<open>time.time()\<close>
  again for the processing time, and \<^verbatim>\<open>datetime.utcnow()\<close> for the timestamp. The three
  readings are an input of the model.
\<close>

record clock =
  time_on_entry :: real
  time_on_exit :: real
  utcnow :: real

text \<open>
  \<^verbatim>\<open>analyze_text\<close>, for an analyzer that is initialized. The subscript
  \<^verbatim>\<open>sentiment_analysis['compound']\<close> raises on a dictionary without that key. The local
  variables \<^verbatim>\<open>category\<close>, \<^verbatim>\<open>severity\<close>, \<^verbatim>\<open>explanation\<close>, \<^verbatim>\<open>suggestions\<close> and
  \<^verbatim>\<open>support_resources\<close> are shortened to \<open>cat\<close>, \<open>sev\<close>, \<open>expl\<close>, \<open>sugg\<close> and
  \<open>resources\<close>, their names being those of the fields of the response.
\<close>

definition analyze_text ::
  "ContentAnalyzer \<Rightarrow> clock \<Rightarrow> string \<Rightarrow> string option \<Rightarrow> (string \<rightharpoonup> string) option
     \<Rightarrow> error + ContentAnalysisResponse" where
  "analyze_text self clk text context user_preferences =
     (let start_time = time_on_entry clk;
          cleaned_text = preprocess_text text;
          toxicity_analysis = analyze_toxicity self cleaned_text;
          sentiment_analysis = analyze_sentiment self cleaned_text;
          pattern_analysis = analyze_patterns cleaned_text;
          combined_score = combine_analysis_scores toxicity_analysis sentiment_analysis
                             (map_of pattern_analysis);
          cat = determine_category toxicity_analysis (map_of pattern_analysis) combined_score;
          sev = determine_severity combined_score cat;
          expl = generate_explanation cat combined_score text;
          sugg = generate_suggestions cat text user_preferences;
          resources = (if combined_score > 0.7 \<or> cat \<in> set [THREAT, CYBERBULLYING, HATE_SPEECH]
                       then Some load_support_resources else None);
          processing_time = (time_on_exit clk - start_time) * 1000
      in case sentiment_analysis ''compound'' of
           None \<Rightarrow> Inl KeyError
         | Some compound \<Rightarrow>
             validate
               \<lparr> text' = text,
                 toxicity_score = combined_score,
                 is_toxic = (combined_score > 0.5),
                 category = cat,
                 severity = sev,
                 sentiment_score = compound,
                 confidence = calculate_confidence toxicity_analysis pattern_analysis,
                 explanation = expl,
                 suggestions = sugg,
                 support_resources = resources,
                 analysis_timestamp = utcnow clk,
                 processing_time_ms = Some processing_time \<rparr>)"

text \<open>The fields of a response that do not come from the clock.\<close>

definition without_clock :: "error + ContentAnalysisResponse \<Rightarrow> error + ContentAnalysisResponse" where
  "without_clock res =
     (case res of
        Inl e \<Rightarrow> Inl e
      | Inr r \<Rightarrow> Inr (r\<lparr> analysis_timestamp := 0, processing_time_ms := None \<rparr>))"

section \<open>The fusion procedure as the specification words it\<close>

text \<open>
  The eight steps of the specification's section on signal fusion, written from its words
  and not from the code: step 7 adds 0.2 without a cap, step 8 clamps to the unit interval
  on both sides. The sentiment signal is the single number \<open>compound\<close>.
\<close>

definition clamp01 :: "real \<Rightarrow> real" where
  "clamp01 x = max 0.0 (min 1.0 x)"

definition spec_fusion :: "(string \<rightharpoonup> real) \<Rightarrow> real \<Rightarrow> (string \<rightharpoonup> bool) \<Rightarrow> real" where
  "spec_fusion raw compound flags =
     (let base = get_or raw ''toxicity'' 0.0;
          base = (if get_or raw ''severe_toxicity'' 0.0 > 0.5 then max base 0.8 else base);
          base = (if get_or raw ''threat'' 0.0 > 0.3 then max base 0.9 else base);
          base = (if compound < - 0.5 then max base (\<bar>compound\<bar> * 0.6) else base);
          base = (if flag flags ''has_threats'' then max base 0.85 else base);
          base = (if flag flags ''has_hate_speech'' then max base 0.75 else base);
          base = (if flag flags ''excessive_caps'' \<and> flag flags ''has_profanity''
                  then base + 0.2 else base)
      in clamp01 base)"

section \<open>Auxiliary notions for the proofs\<close>

text \<open>
  One ceiling-raising step of the fusion, and the value of \<^verbatim>\<open>base_score\<close> after the five
  such steps, before the additive boost. Both are proof devices;
  \<open>combine_analysis_scores_unfold\<close> below ties them to the definition taken from the source.
\<close>

definition lift_to :: "bool \<Rightarrow> real \<Rightarrow> real \<Rightarrow> real" where
  "lift_to c v b = (if c then max b v else b)"

definition pre_boost :: "(string \<rightharpoonup> real) \<Rightarrow> real \<Rightarrow> (string \<rightharpoonup> bool) \<Rightarrow> real" where
  "pre_boost tox c pat =
     lift_to (flag pat ''has_hate_speech'') 0.75
       (lift_to (flag pat ''has_threats'') 0.85
         (lift_to (c < - 0.5) (\<bar>c\<bar> * 0.6)
           (lift_to (get_or tox ''threat'' 0.0 > 0.3) 0.9
             (lift_to (get_or tox ''severe_toxicity'' 0.0 > 0.5) 0.8
               (get_or tox ''toxicity'' 0.0)))))"

section \<open>Properties of the fusion\<close>

lemma combine_analysis_scores_unfold:
  "combine_analysis_scores tox sent pat =
     min (if flag pat ''excessive_caps'' \<and> flag pat ''has_profanity''
          then min (pre_boost tox (get_or sent ''compound'' 0.0) pat + 0.2) 1.0
          else pre_boost tox (get_or sent ''compound'' 0.0) pat) 1.0"
  unfolding combine_analysis_scores_def pre_boost_def lift_to_def Let_def
  by (rule refl)

lemma spec_fusion_unfold:
  "spec_fusion raw c flags =
     clamp01 (if flag flags ''excessive_caps'' \<and> flag flags ''has_profanity''
              then pre_boost raw c flags + 0.2 else pre_boost raw c flags)"
  unfolding spec_fusion_def pre_boost_def lift_to_def Let_def
  by (rule refl)

lemma lift_to_ge: "b \<le> lift_to c v b"
  by (simp add: lift_to_def)

lemma lift_to_mono: "b \<le> b' \<Longrightarrow> (c \<Longrightarrow> c') \<Longrightarrow> lift_to c v b \<le> lift_to c' v b'"
  by (auto simp: lift_to_def max_def)

lemma pre_boost_ge: "get_or tox ''toxicity'' 0.0 \<le> pre_boost tox c pat"
  unfolding pre_boost_def
  by (intro order_trans [OF _ lift_to_ge]) simp

text \<open>
  Claim C1. On every RawSignals mapping of the data model (scores in the unit interval;
  only \<open>0 \<le> toxicity\<close> is needed, an absent key counting as 0.0), every sentiment
  dictionary and every pattern dictionary, the score returned by
  \<^verbatim>\<open>_combine_analysis_scores\<close> is the result of the specification's eight steps in their
  order.
\<close>

theorem combine_analysis_scores_refines_spec:
  assumes "0 \<le> get_or tox ''toxicity'' 0.0"
  shows "combine_analysis_scores tox sent pat
           = spec_fusion tox (get_or sent ''compound'' 0.0) pat"
proof -
  have "0 \<le> pre_boost tox (get_or sent ''compound'' 0.0) pat"
    using assms pre_boost_ge [of tox "get_or sent ''compound'' 0.0" pat] by linarith
  then show ?thesis
    unfolding combine_analysis_scores_unfold spec_fusion_unfold clamp01_def
    by (simp add: max_def min_def)
qed


theorem combine_analysis_scores_refines_spec_witness:
  "0 \<le> get_or [''toxicity'' \<mapsto> 0.4, ''severe_toxicity'' \<mapsto> 0.6] ''toxicity'' (0.0::real)
   \<and> combine_analysis_scores [''toxicity'' \<mapsto> 0.4, ''severe_toxicity'' \<mapsto> 0.6]
         [''compound'' \<mapsto> - 0.9] [''excessive_caps'' \<mapsto> True, ''has_profanity'' \<mapsto> True]
       = spec_fusion [''toxicity'' \<mapsto> 0.4, ''severe_toxicity'' \<mapsto> 0.6]
           (get_or [''compound'' \<mapsto> - 0.9] ''compound'' 0.0)
           [''excessive_caps'' \<mapsto> True, ''has_profanity'' \<mapsto> True]"
proof -
  have h: "0 \<le> get_or [''toxicity'' \<mapsto> 0.4, ''severe_toxicity'' \<mapsto> 0.6] ''toxicity'' (0.0::real)"
    by (simp add: get_or_def)
  show ?thesis
    using h combine_analysis_scores_refines_spec [OF h] by blast
qed

section \<open>Bounds of the fused score\<close>

lemma lift_to_reaches: "c \<Longrightarrow> v \<le> lift_to c v b"
  by (simp add: lift_to_def)

lemma combine_analysis_scores_le_1: "combine_analysis_scores tox sent pat \<le> 1"
  by (simp add: combine_analysis_scores_unfold)

lemma combine_analysis_scores_ge:
  assumes "x \<le> pre_boost tox (get_or sent ''compound'' 0.0) pat" and "x \<le> 1"
  shows "x \<le> combine_analysis_scores tox sent pat"
  using assms unfolding combine_analysis_scores_unfold by (simp add: min_def)

text \<open>
  Claim C2, as the specification states it, fails: no signal is clamped before use. A
  classifier that reports the toxicity \<open>-1\<close> and nothing else gets the fused score
  \<open>-1\<close>, outside the unit interval.
\<close>

theorem combine_analysis_scores_negative_counterexample:
  "combine_analysis_scores [''toxicity'' \<mapsto> - 1] Map.empty Map.empty = - 1
   \<and> \<not> (0 \<le> combine_analysis_scores [''toxicity'' \<mapsto> - 1] Map.empty Map.empty)"
  by (simp add: combine_analysis_scores_unfold pre_boost_def lift_to_def get_or_def flag_def)

section \<open>Category and severity\<close>

text \<open>
  Claim C3. The category is chosen by a first-match priority list: with a combined score
  of at least 0.3, an input that meets the THREAT condition and the HATE_SPEECH condition
  together is classified THREAT.
\<close>

theorem determine_category_threat_first:
  assumes "0.3 \<le> combined_score"
    and "flag pat ''has_threats'' \<or> get_or tox ''threat'' 0.0 > 0.4"
    and "flag pat ''has_hate_speech'' \<or> combined_score > 0.7"
  shows "determine_category tox pat combined_score = THREAT"
  using assms by (auto simp: determine_category_def)

theorem determine_category_threat_first_witness:
  "(0.3::real) \<le> 0.75
   \<and> (flag [''has_threats'' \<mapsto> True] ''has_threats''
        \<or> get_or (Map.empty :: string \<rightharpoonup> real) ''threat'' 0.0 > 0.4)
   \<and> (flag [''has_threats'' \<mapsto> True] ''has_hate_speech'' \<or> (0.75::real) > 0.7)
   \<and> determine_category Map.empty [''has_threats'' \<mapsto> True] 0.75 = THREAT"
proof -
  have h1: "(0.3::real) \<le> 0.75" by simp
  have h2: "flag [''has_threats'' \<mapsto> True] ''has_threats''
        \<or> get_or (Map.empty :: string \<rightharpoonup> real) ''threat'' 0.0 > 0.4"
    by (simp add: flag_def)
  have h3: "flag [''has_threats'' \<mapsto> True] ''has_hate_speech'' \<or> (0.75::real) > 0.7"
    by simp
  show ?thesis
    using h1 h2 h3 determine_category_threat_first [OF h1 h2 h3] by blast
qed

text \<open>
  Claim C4. A THREAT is CRITICAL at every score. Every other category is HIGH from 0.8,
  MEDIUM from 0.6 up to 0.8 and LOW below, hence never CRITICAL.
\<close>

theorem determine_severity_table:
  "determine_severity combined_score THREAT = CRITICAL
   \<and> (cat \<noteq> THREAT \<longrightarrow>
        determine_severity combined_score cat
          = (if combined_score \<ge> 0.8 then HIGH
             else if 0.6 \<le> combined_score \<and> combined_score < 0.8 then MEDIUM
             else LOW)
        \<and> determine_severity combined_score cat \<noteq> CRITICAL)"
  by (simp add: determine_severity_def)

theorem determine_severity_table_witness:
  "determine_severity 0.7 THREAT = CRITICAL
   \<and> HATE_SPEECH \<noteq> THREAT
   \<and> determine_severity 0.7 HATE_SPEECH = MEDIUM
   \<and> determine_severity 0.7 HATE_SPEECH \<noteq> CRITICAL"
  using determine_severity_table [of "0.7" HATE_SPEECH] by simp

text \<open>
  Claim C6. The category is SAFE exactly when the combined score is below 0.3, whatever
  the pattern flags and the raw signals are.
\<close>

theorem determine_category_safe_iff:
  "determine_category tox pat combined_score = SAFE \<longleftrightarrow> combined_score < 0.3"
  by (simp add: determine_category_def)


section \<open>Monotonicity of the fusion\<close>

lemma pre_boost_mono:
  assumes "get_or t1 ''toxicity'' 0.0 \<le> get_or t2 ''toxicity'' 0.0"
    and "get_or t1 ''severe_toxicity'' 0.0 \<le> get_or t2 ''severe_toxicity'' 0.0"
    and "get_or t1 ''threat'' 0.0 \<le> get_or t2 ''threat'' 0.0"
  shows "pre_boost t1 c pat \<le> pre_boost t2 c pat"
  unfolding pre_boost_def
proof (intro lift_to_mono)
  show "get_or t1 ''toxicity'' 0.0 \<le> get_or t2 ''toxicity'' 0.0"
    by (rule assms(1))
  show "0.5 < get_or t2 ''severe_toxicity'' 0.0" if "0.5 < get_or t1 ''severe_toxicity'' 0.0"
    using that assms(2) by linarith
  show "0.3 < get_or t2 ''threat'' 0.0" if "0.3 < get_or t1 ''threat'' 0.0"
    using that assms(3) by linarith
qed

lemma combine_analysis_scores_mono_pointwise:
  assumes "\<And>k. get_or t1 k 0.0 \<le> get_or t2 k 0.0"
  shows "combine_analysis_scores t1 sent pat \<le> combine_analysis_scores t2 sent pat"
proof -
  have "pre_boost t1 (get_or sent ''compound'' 0.0) pat
          \<le> pre_boost t2 (get_or sent ''compound'' 0.0) pat"
    by (rule pre_boost_mono) (rule assms)+
  then show ?thesis
    unfolding combine_analysis_scores_unfold by (auto simp: min_def)
qed

text \<open>
  Claim C5. The fusion is monotone in each raw signal. Two RawSignals mappings that agree
  on every field but one are a mapping \<open>tox\<close> and its update \<open>tox(field := v)\<close>, where
  \<open>v\<close> is the new entry of the field (\<open>None\<close> for an absent key, which counts as 0.0).
  When the field is not smaller in the second mapping, the score fused from the second is
  not smaller either, for the same sentiment and the same pattern flags.
\<close>

theorem combine_analysis_scores_monotone:
  assumes "get_or tox field 0.0 \<le> get_or (tox(field := v)) field 0.0"
  shows "combine_analysis_scores tox sent pat
           \<le> combine_analysis_scores (tox(field := v)) sent pat"
proof (rule combine_analysis_scores_mono_pointwise)
  fix k
  show "get_or tox k 0.0 \<le> get_or (tox(field := v)) k 0.0"
  proof (cases "k = field")
    case True
    then show ?thesis using assms by simp
  next
    case False
    then show ?thesis by (simp add: get_or_def)
  qed
qed

theorem combine_analysis_scores_monotone_witness:
  "get_or [''toxicity'' \<mapsto> 0.2, ''threat'' \<mapsto> (0.1::real)] ''threat'' 0.0
       \<le> get_or ([''toxicity'' \<mapsto> 0.2, ''threat'' \<mapsto> 0.1](''threat'' := Some 0.5)) ''threat'' 0.0
   \<and> combine_analysis_scores [''toxicity'' \<mapsto> 0.2, ''threat'' \<mapsto> 0.1] Map.empty Map.empty
       \<le> combine_analysis_scores ([''toxicity'' \<mapsto> 0.2, ''threat'' \<mapsto> 0.1](''threat'' := Some 0.5))
            Map.empty Map.empty"
proof -
  have h: "get_or [''toxicity'' \<mapsto> 0.2, ''threat'' \<mapsto> (0.1::real)] ''threat'' 0.0
       \<le> get_or ([''toxicity'' \<mapsto> 0.2, ''threat'' \<mapsto> 0.1](''threat'' := Some 0.5)) ''threat'' 0.0"
    by (simp add: get_or_def)
  show ?thesis
    using h combine_analysis_scores_monotone [OF h] by blast
qed

section \<open>A threat pattern decides the verdict\<close>

lemma pre_boost_has_threats:
  assumes "flag pat ''has_threats''"
  shows "0.85 \<le> pre_boost tox c pat"
proof -
  have "0.85 \<le> lift_to (flag pat ''has_threats'') 0.85
      (lift_to (c < - 0.5) (\<bar>c\<bar> * 0.6)
        (lift_to (get_or tox ''threat'' 0.0 > 0.3) 0.9
          (lift_to (get_or tox ''severe_toxicity'' 0.0 > 0.5) 0.8
            (get_or tox ''toxicity'' 0.0))))"
    using assms by (rule lift_to_reaches)
  then show ?thesis
    unfolding pre_boost_def by (rule order_trans [OF _ lift_to_ge])
qed

text \<open>
  Claim C10. When the pattern flag \<open>has_threats\<close> is set, the fused score is at least
  0.85, so the SAFE branch cannot be taken, the category is THREAT and the severity is
  CRITICAL. This holds for all raw signals, in particular for those in the unit interval.
\<close>

theorem has_threats_gives_threat_critical:
  assumes "flag pat ''has_threats''"
  shows "0.85 \<le> combine_analysis_scores tox sent pat
    \<and> determine_category tox pat (combine_analysis_scores tox sent pat) = THREAT
    \<and> determine_severity (combine_analysis_scores tox sent pat)
          (determine_category tox pat (combine_analysis_scores tox sent pat)) = CRITICAL"
proof -
  have s: "0.85 \<le> combine_analysis_scores tox sent pat"
  proof (rule combine_analysis_scores_ge)
    show "0.85 \<le> pre_boost tox (get_or sent ''compound'' 0.0) pat"
      by (rule pre_boost_has_threats [OF assms])
    show "(0.85::real) \<le> 1"
      by simp
  qed
  then have c: "determine_category tox pat (combine_analysis_scores tox sent pat) = THREAT"
    using assms by (simp add: determine_category_def)
  show ?thesis
    using s c by (simp add: determine_severity_def)
qed

theorem has_threats_gives_threat_critical_witness:
  "flag [''has_threats'' \<mapsto> True] ''has_threats''
   \<and> 0.85 \<le> combine_analysis_scores Map.empty Map.empty [''has_threats'' \<mapsto> True]
   \<and> determine_category Map.empty [''has_threats'' \<mapsto> True]
        (combine_analysis_scores Map.empty Map.empty [''has_threats'' \<mapsto> True]) = THREAT
   \<and> determine_severity (combine_analysis_scores Map.empty Map.empty [''has_threats'' \<mapsto> True])
        (determine_category Map.empty [''has_threats'' \<mapsto> True]
          (combine_analysis_scores Map.empty Map.empty [''has_threats'' \<mapsto> True])) = CRITICAL"
proof -
  have h: "flag [''has_threats'' \<mapsto> True] ''has_threats''"
    by (simp add: flag_def)
  show ?thesis
    using h has_threats_gives_threat_critical [OF h] by blast
qed


section \<open>Suggestions\<close>

lemma generate_suggestions_not_safe:
  assumes "c \<noteq> SAFE"
  shows "length (generate_suggestions c text prefs) = 3
    \<and> ''Remember: kind words can make someone's day better!''
         \<notin> set (generate_suggestions c text prefs)"
  using assms
  by (cases c) (simp_all add: generate_suggestions_def base_suggestions_def get_or_def)

text \<open>
  Claim C7. The list has at most three items, but the general closing remark is never in
  it: every category brings three templates, the remark is appended as the fourth item, and
  the slice \<^verbatim>\<open>suggestions[:3]\<close> cuts it off. For the category THREAT the result is the
  three THREAT templates.
\<close>

theorem generate_suggestions_threat_drops_closing_remark:
  "generate_suggestions THREAT ''I will kill you or else'' None
     = [''Express disagreement or frustration without mentioning harm'',
        ''Consider taking a break before responding when you're angry'',
        ''Remember that threats can have serious legal and personal consequences'']
   \<and> ''Remember: kind words can make someone's day better!''
        \<notin> set (generate_suggestions THREAT ''I will kill you or else'' None)"
  by (simp add: generate_suggestions_def base_suggestions_def get_or_def)

section \<open>The scenario of a threat on the rule-based path\<close>

lemmas char_class_defs =
  lower_def lower_char_def is_upper_def is_lower_def is_digit_def is_space_def is_word_def
  at_boundary_def search_def

lemma scenario_preprocess:
  "preprocess_text ''I will kill you or else'' = ''I will kill you or else''"
  by (simp add: preprocess_text_def strip_def is_space_def)

lemma scenario_patterns:
  "analyze_patterns ''I will kill you or else''
     = [(''has_hate_speech'', False), (''has_threats'', True), (''has_profanity'', False),
        (''excessive_caps'', False), (''excessive_punctuation'', False)]"
  by (simp add: analyze_patterns_def hate_speech_patterns_def threat_patterns_def
      profanity_patterns_def char_class_defs)

lemma scenario_threat_matches:
  "map (\<lambda>pattern. search pattern (lower ''I will kill you or else'')) threat_patterns
     = [True, False, True]"
  by (simp add: threat_patterns_def char_class_defs)

lemma scenario_scores:
  "rule_based_toxicity_analysis ''I will kill you or else'' ''toxicity'' = Some 0"
  "rule_based_toxicity_analysis ''I will kill you or else'' ''severe_toxicity'' = Some 0.7"
  "rule_based_toxicity_analysis ''I will kill you or else'' ''threat'' = Some 1"
  by (simp_all add: rule_based_toxicity_analysis_def hate_speech_patterns_def
      threat_patterns_def profanity_patterns_def char_class_defs get_or_def)

text \<open>
  Claim C8, as the specification states it, fails in one number: two threat patterns match
  the text (\<^verbatim>\<open>will kill\<close> and \<^verbatim>\<open>or else\<close>), so the rule-based threat score is
  \<open>min (0.4 + 2 * 0.3) 1 = 1\<close> and not 0.7.
\<close>

theorem scenario_threat_score_counterexample:
  "get_or (rule_based_toxicity_analysis ''I will kill you or else'') ''threat'' 0.0 = 1
   \<and> get_or (rule_based_toxicity_analysis ''I will kill you or else'') ''threat'' 0.0 \<noteq> 0.7"
  by (simp add: get_or_def scenario_scores)

text \<open>
  Claim C8, amended. For the text \<^verbatim>\<open>I will kill you or else\<close>, which preprocessing leaves
  unchanged, on the path without a classifier and with a sentiment compound not below
  \<open>-0.5\<close>: the pattern analysis sets \<open>has_threats\<close>, the rule-based scores are threat 1 and
  severe toxicity 0.7, the fused score is 0.9, the category is THREAT and the severity is
  CRITICAL.
\<close>

theorem scenario_kill_or_else:
  assumes "toxicity_classifier self = None"
    and "- 0.5 \<le> get_or sent ''compound'' 0.0"
  shows "preprocess_text ''I will kill you or else'' = ''I will kill you or else''
    \<and> flag (map_of (analyze_patterns ''I will kill you or else'')) ''has_threats''
    \<and> analyze_toxicity self ''I will kill you or else'' ''threat'' = Some 1
    \<and> analyze_toxicity self ''I will kill you or else'' ''severe_toxicity'' = Some 0.7
    \<and> combine_analysis_scores (analyze_toxicity self ''I will kill you or else'') sent
          (map_of (analyze_patterns ''I will kill you or else'')) = 0.9
    \<and> determine_category (analyze_toxicity self ''I will kill you or else'')
          (map_of (analyze_patterns ''I will kill you or else'')) 0.9 = THREAT
    \<and> determine_severity 0.9 THREAT = CRITICAL"
proof -
  let ?T = "''I will kill you or else''"
  have tox: "analyze_toxicity self ?T = rule_based_toxicity_analysis ?T"
    using assms(1) by (simp add: analyze_toxicity_def)
  have flags: "flag (map_of (analyze_patterns ?T)) ''has_threats''"
    "\<not> flag (map_of (analyze_patterns ?T)) ''has_hate_speech''"
    "\<not> flag (map_of (analyze_patterns ?T)) ''has_profanity''"
    by (simp_all add: scenario_patterns flag_def)
  have c: "\<not> get_or sent ''compound'' 0 < - (5 / 10)"
    using assms(2) by simp
  have score: "combine_analysis_scores (analyze_toxicity self ?T) sent
      (map_of (analyze_patterns ?T)) = 0.9"
    unfolding combine_analysis_scores_unfold pre_boost_def lift_to_def tox
    using flags c by (simp add: get_or_def scenario_scores)
  have cat: "determine_category (analyze_toxicity self ?T) (map_of (analyze_patterns ?T)) 0.9
      = THREAT"
    using flags(1) by (simp add: determine_category_def)
  show ?thesis
    using scenario_preprocess flags(1) score cat
    by (simp add: tox scenario_scores determine_severity_def)
qed

theorem scenario_kill_or_else_witness:
  "toxicity_classifier \<lparr> toxicity_classifier = None,
       sentiment_analyzer = (\<lambda>t. [''compound'' \<mapsto> - 0.4]) \<rparr> = None
   \<and> - 0.5 \<le> get_or [''compound'' \<mapsto> - 0.4] ''compound'' (0.0::real)
   \<and> combine_analysis_scores
        (analyze_toxicity \<lparr> toxicity_classifier = None,
            sentiment_analyzer = (\<lambda>t. [''compound'' \<mapsto> - 0.4]) \<rparr> ''I will kill you or else'')
        [''compound'' \<mapsto> - 0.4]
        (map_of (analyze_patterns ''I will kill you or else'')) = 0.9"
proof -
  have h1: "toxicity_classifier \<lparr> toxicity_classifier = None,
       sentiment_analyzer = (\<lambda>t. [''compound'' \<mapsto> - 0.4]) \<rparr> = None"
    by simp
  have h2: "- 0.5 \<le> get_or [''compound'' \<mapsto> - 0.4] ''compound'' (0.0::real)"
    by (simp add: get_or_def)
  show ?thesis
    using h1 h2 scenario_kill_or_else [OF h1 h2] by blast
qed

section \<open>Determinism of the analysis\<close>

lemma calculate_confidence_bounds:
  "0.5 \<le> calculate_confidence tox pat \<and> calculate_confidence tox pat \<le> 0.95"
proof -
  have "0 \<le> real (length (filter (\<lambda>v. v) (map snd pat))) * 0.1"
    by simp
  then show ?thesis
    unfolding calculate_confidence_def Let_def by (auto simp: min_def)
qed

lemma analyze_text_clock_fields:
  assumes "analyze_text self clk text ctx prefs = Inr r"
  shows "analysis_timestamp r = utcnow clk
    \<and> processing_time_ms r = Some ((time_on_exit clk - time_on_entry clk) * 1000)"
  using assms unfolding analyze_text_def Let_def validate_def
  by (auto split: option.splits if_splits)

lemma analyze_text_succeeds:
  assumes "analyze_sentiment self (preprocess_text text) ''compound'' = Some c"
    and "- 1 \<le> c" and "c \<le> 1"
    and "0 \<le> get_or (analyze_toxicity self (preprocess_text text)) ''toxicity'' 0.0"
  shows "\<exists>r. analyze_text self clk text ctx prefs = Inr r"
proof -
  have "0 \<le> combine_analysis_scores (analyze_toxicity self (preprocess_text text))
      (analyze_sentiment self (preprocess_text text))
      (map_of (analyze_patterns (preprocess_text text)))"
    using combine_analysis_scores_ge [OF order_trans [OF assms(4) pre_boost_ge]] by simp
  moreover have "combine_analysis_scores (analyze_toxicity self (preprocess_text text))
      (analyze_sentiment self (preprocess_text text))
      (map_of (analyze_patterns (preprocess_text text))) \<le> 1"
    by (rule combine_analysis_scores_le_1)
  moreover have "0 \<le> calculate_confidence (analyze_toxicity self (preprocess_text text))
      (analyze_patterns (preprocess_text text))"
    and "calculate_confidence (analyze_toxicity self (preprocess_text text))
      (analyze_patterns (preprocess_text text)) \<le> 1"
    using calculate_confidence_bounds
      [of "analyze_toxicity self (preprocess_text text)" "analyze_patterns (preprocess_text text)"]
    by simp_all
  ultimately show ?thesis
    using assms(1-3) unfolding analyze_text_def Let_def validate_def by simp
qed

text \<open>
  Claim C9, as the code has it. The response is a function of the text, the classifier's
  signals and the sentiment signals in every field but two: \<^verbatim>\<open>analysis_timestamp\<close> and
  \<^verbatim>\<open>processing_time_ms\<close> are read from the clock. Two runs with the same text, the same
  toxicity signals and the same sentiment signals agree on all other fields, and fail or
  succeed together.
\<close>

theorem analyze_text_deterministic_up_to_clock:
  assumes "analyze_toxicity self1 (preprocess_text text)
             = analyze_toxicity self2 (preprocess_text text)"
    and "analyze_sentiment self1 (preprocess_text text)
             = analyze_sentiment self2 (preprocess_text text)"
  shows "without_clock (analyze_text self1 clk1 text ctx prefs)
           = without_clock (analyze_text self2 clk2 text ctx prefs)"
  unfolding analyze_text_def Let_def without_clock_def validate_def assms
  by (simp split: option.splits)


theorem analyze_text_deterministic_up_to_clock_witness:
  "analyze_toxicity
       \<lparr> toxicity_classifier = Some (\<lambda>t. Results [[(''toxic'', 0.9)]]),
         sentiment_analyzer = (\<lambda>t. [''compound'' \<mapsto> 0]) \<rparr> (preprocess_text ''hello'')
     = analyze_toxicity
       \<lparr> toxicity_classifier = Some (\<lambda>t. Results [[(''toxic'', 0.9)]]),
         sentiment_analyzer = (\<lambda>t. [''compound'' \<mapsto> 0]) \<rparr> (preprocess_text ''hello'')
   \<and> analyze_sentiment
       \<lparr> toxicity_classifier = Some (\<lambda>t. Results [[(''toxic'', 0.9)]]),
         sentiment_analyzer = (\<lambda>t. [''compound'' \<mapsto> 0]) \<rparr> (preprocess_text ''hello'')
     = analyze_sentiment
       \<lparr> toxicity_classifier = Some (\<lambda>t. Results [[(''toxic'', 0.9)]]),
         sentiment_analyzer = (\<lambda>t. [''compound'' \<mapsto> 0]) \<rparr> (preprocess_text ''hello'')
   \<and> without_clock (analyze_text
         \<lparr> toxicity_classifier = Some (\<lambda>t. Results [[(''toxic'', 0.9)]]),
           sentiment_analyzer = (\<lambda>t. [''compound'' \<mapsto> 0]) \<rparr>
         \<lparr> time_on_entry = 0, time_on_exit = 1, utcnow = 100 \<rparr> ''hello'' None None)
     = without_clock (analyze_text
         \<lparr> toxicity_classifier = Some (\<lambda>t. Results [[(''toxic'', 0.9)]]),
           sentiment_analyzer = (\<lambda>t. [''compound'' \<mapsto> 0]) \<rparr>
         \<lparr> time_on_entry = 5, time_on_exit = 7, utcnow = 200 \<rparr> ''hello'' None None)"
  using analyze_text_deterministic_up_to_clock
    [of "\<lparr> toxicity_classifier = Some (\<lambda>t. Results [[(''toxic'', 0.9)]]),
           sentiment_analyzer = (\<lambda>t. [''compound'' \<mapsto> 0]) \<rparr>" "''hello''"
        "\<lparr> toxicity_classifier = Some (\<lambda>t. Results [[(''toxic'', 0.9)]]),
           sentiment_analyzer = (\<lambda>t. [''compound'' \<mapsto> 0]) \<rparr>"
        "\<lparr> time_on_entry = 0, time_on_exit = 1, utcnow = 100 \<rparr>" None None
        "\<lparr> time_on_entry = 5, time_on_exit = 7, utcnow = 200 \<rparr>"]
  by blast

text \<open>
  Claim C9, as the specification states it, fails: two runs on the same text with the same
  classifier and the same sentiment analyzer, at different clock readings, return responses
  that differ (in the timestamp).
\<close>

theorem analyze_text_timestamp_counterexample:
  "analyze_text
       \<lparr> toxicity_classifier = Some (\<lambda>t. Results [[(''toxic'', 0.9)]]),
         sentiment_analyzer = (\<lambda>t. [''compound'' \<mapsto> 0]) \<rparr>
       \<lparr> time_on_entry = 0, time_on_exit = 1, utcnow = 100 \<rparr> ''hello'' None None
   \<noteq> analyze_text
       \<lparr> toxicity_classifier = Some (\<lambda>t. Results [[(''toxic'', 0.9)]]),
         sentiment_analyzer = (\<lambda>t. [''compound'' \<mapsto> 0]) \<rparr>
       \<lparr> time_on_entry = 0, time_on_exit = 1, utcnow = 200 \<rparr> ''hello'' None None"
proof -
  let ?A = "\<lparr> toxicity_classifier = Some (\<lambda>t. Results [[(''toxic'', 0.9)]]),
         sentiment_analyzer = (\<lambda>t. [''compound'' \<mapsto> (0::real)]) \<rparr>"
  let ?c1 = "\<lparr> time_on_entry = 0, time_on_exit = 1, utcnow = 100 \<rparr>"
  let ?c2 = "\<lparr> time_on_entry = 0, time_on_exit = 1, utcnow = 200 \<rparr>"
  have s: "analyze_sentiment ?A (preprocess_text ''hello'') ''compound'' = Some 0"
    by (simp add: analyze_sentiment_def)
  have t: "0 \<le> get_or (analyze_toxicity ?A (preprocess_text ''hello'')) ''toxicity'' 0.0"
    by (simp add: analyze_toxicity_def assign_label_def get_or_def lower_def lower_char_def
        is_upper_def)
  obtain r1 where r1: "analyze_text ?A ?c1 ''hello'' None None = Inr r1"
    using analyze_text_succeeds [OF s _ _ t] by force
  obtain r2 where r2: "analyze_text ?A ?c2 ''hello'' None None = Inr r2"
    using analyze_text_succeeds [OF s _ _ t] by force
  have "analysis_timestamp r1 = 100" and "analysis_timestamp r2 = 200"
    using analyze_text_clock_fields [OF r1] analyze_text_clock_fields [OF r2] by simp_all
  then have "r1 \<noteq> r2"
    by auto
  then show ?thesis
    using r1 r2 by simp
qed

section \<open>A score outside the unit interval is rejected, not clamped\<close>

lemma hello_preprocess: "preprocess_text ''hello'' = ''hello''"
  by (simp add: preprocess_text_def strip_def is_space_def)

lemma hello_patterns:
  "analyze_patterns ''hello''
     = [(''has_hate_speech'', False), (''has_threats'', False), (''has_profanity'', False),
        (''excessive_caps'', False), (''excessive_punctuation'', False)]"
  by (simp add: analyze_patterns_def hate_speech_patterns_def threat_patterns_def
      profanity_patterns_def char_class_defs)

lemma hello_classified:
  "analyze_toxicity
       \<lparr> toxicity_classifier = Some (\<lambda>t. Results [[(''toxic'', x)]]),
         sentiment_analyzer = sa \<rparr> ''hello'' = [''toxicity'' \<mapsto> x]"
  by (simp add: analyze_toxicity_def assign_label_def lower_def lower_char_def is_upper_def)

lemma hello_fused:
  "combine_analysis_scores [''toxicity'' \<mapsto> x] [''compound'' \<mapsto> 0]
      (map_of (analyze_patterns ''hello'')) = min x 1"
  unfolding combine_analysis_scores_unfold pre_boost_def lift_to_def hello_patterns
  by (simp add: get_or_def flag_def)

text \<open>
  With a classifier that reports the toxicity \<open>-1\<close>, the analysis of a harmless text ends
  in the validation error of the response model: the fused score \<open>-1\<close> violates the bound
  \<^verbatim>\<open>ge=0.0\<close> of \<^verbatim>\<open>toxicity_score\<close>.
\<close>

lemma analyze_text_negative_toxicity:
  "analyze_text
       \<lparr> toxicity_classifier = Some (\<lambda>t. Results [[(''toxic'', - 1)]]),
         sentiment_analyzer = (\<lambda>t. [''compound'' \<mapsto> 0]) \<rparr>
       clk ''hello'' None None = Inl ValidationError"
  unfolding analyze_text_def Let_def hello_preprocess hello_classified
  by (simp add: analyze_sentiment_def hello_fused validate_def)

text \<open>
  Claim C2, as the code has it. The engine does not clamp the classifier's signals: the
  score of a returned response is the fusion of the signals as the classifier delivered
  them. It is in the unit interval all the same, for every signal mapping, since a response
  whose score is outside the interval is not built: the analysis ends in the validation
  error instead of returning.
\<close>

theorem analyze_text_returned_score:
  assumes "analyze_text self clk text ctx prefs = Inr r"
  shows "toxicity_score r
           = combine_analysis_scores (analyze_toxicity self (preprocess_text text))
               (analyze_sentiment self (preprocess_text text))
               (map_of (analyze_patterns (preprocess_text text)))
    \<and> 0 \<le> toxicity_score r \<and> toxicity_score r \<le> 1"
  using assms unfolding analyze_text_def Let_def validate_def
  by (auto split: option.splits if_splits)

theorem analyze_text_returned_score_witness:
  "analyze_text
       \<lparr> toxicity_classifier = Some (\<lambda>t. Results [[(''toxic'', 2)]]),
         sentiment_analyzer = (\<lambda>t. [''compound'' \<mapsto> 0]) \<rparr>
       \<lparr> time_on_entry = 0, time_on_exit = 1, utcnow = 100 \<rparr> ''hello'' None None
     = Inr \<lparr> text' = ''hello'', toxicity_score = 1, is_toxic = True,
             category = HATE_SPEECH, severity = HIGH, sentiment_score = 0,
             confidence = 0.8,
             explanation = generate_explanation HATE_SPEECH 1 ''hello'',
             suggestions = generate_suggestions HATE_SPEECH ''hello'' None,
             support_resources = Some load_support_resources,
             analysis_timestamp = 100, processing_time_ms = Some 1000 \<rparr>
   \<and> 0 \<le> toxicity_score
         \<lparr> text' = ''hello'', toxicity_score = 1, is_toxic = True,
           category = HATE_SPEECH, severity = HIGH, sentiment_score = 0,
           confidence = 0.8,
           explanation = generate_explanation HATE_SPEECH 1 ''hello'',
           suggestions = generate_suggestions HATE_SPEECH ''hello'' None,
           support_resources = Some load_support_resources,
           analysis_timestamp = 100, processing_time_ms = Some 1000 \<rparr>
   \<and> toxicity_score
         \<lparr> text' = ''hello'', toxicity_score = 1, is_toxic = True,
           category = HATE_SPEECH, severity = HIGH, sentiment_score = 0,
           confidence = 0.8,
           explanation = generate_explanation HATE_SPEECH 1 ''hello'',
           suggestions = generate_suggestions HATE_SPEECH ''hello'' None,
           support_resources = Some load_support_resources,
           analysis_timestamp = 100, processing_time_ms = Some 1000 \<rparr> \<le> 1"
proof -
  have c: "determine_category [''toxicity'' \<mapsto> 2] (map_of (analyze_patterns ''hello'')) 1
      = HATE_SPEECH"
    by (simp add: hello_patterns determine_category_def flag_def get_or_def)
  have conf: "calculate_confidence [''toxicity'' \<mapsto> 2] (analyze_patterns ''hello'') = 0.8"
    by (simp add: hello_patterns calculate_confidence_def get_or_def)
  have h: "analyze_text
       \<lparr> toxicity_classifier = Some (\<lambda>t. Results [[(''toxic'', 2)]]),
         sentiment_analyzer = (\<lambda>t. [''compound'' \<mapsto> 0]) \<rparr>
       \<lparr> time_on_entry = 0, time_on_exit = 1, utcnow = 100 \<rparr> ''hello'' None None
     = Inr \<lparr> text' = ''hello'', toxicity_score = 1, is_toxic = True,
             category = HATE_SPEECH, severity = HIGH, sentiment_score = 0,
             confidence = 0.8,
             explanation = generate_explanation HATE_SPEECH 1 ''hello'',
             suggestions = generate_suggestions HATE_SPEECH ''hello'' None,
             support_resources = Some load_support_resources,
             analysis_timestamp = 100, processing_time_ms = Some 1000 \<rparr>"
    unfolding analyze_text_def Let_def hello_preprocess hello_classified
    by (simp add: analyze_sentiment_def hello_fused c conf validate_def determine_severity_def)
  show ?thesis
    using h analyze_text_returned_score [OF h] by blast
qed

end
